theory Spec2Isabelle
  imports Complex_Main "HOL-Library.AList"
begin

section \<open>Values, documents and exceptions\<close>

text \<open>
  A stored document is a Python dict: an association list from field names to values.
  A collection keeps its documents in insertion order. Instants (\<open>datetime\<close>) and
  durations (\<open>timedelta\<close>) are integers counting microseconds, the resolution of the
  Python types. Every \<open>raise\<close> of the source, of the interpreter and of the libraries
  the source calls is a value \<open>Inl e\<close>: a name that its module never imports raises
  \<open>NameError\<close> where it is first read, an instance method called on its class raises
  \<open>TypeError\<close> for the missing argument, and so does an \<open>await\<close> of a value that is
  not awaitable; what follows in the function is then never run and is not part of the
  model. The functions read the collection and return it when they write to it; the
  clock, the salt of a hash and the identifier the driver generates are arguments.
\<close>

datatype objectid = ObjectId string

datatype val = VNull | VStr string | VBool bool | VInt int | VDate int | VOid objectid

type_synonym doc = "(string \<times> val) list"

type_synonym collection = "doc list"

type_synonym query = "(string \<times> val) list"

datatype exn =
    HTTPException int string "(string \<times> string) list"
  | ValidationError "string list"
  | InvalidId
  | KeyError string
  | AttributeError string
  | TypeError string
  | NameError string
  | ValueError string
  | ZeroDivisionError
  | RequestValidationError "string list"
  | JWTError
  | NotModelled string

subsection \<open>bson.ObjectId\<close>

text \<open>
  \<open>ObjectId(s)\<close> accepts exactly the strings of 24 hexadecimal digits and raises
  \<open>InvalidId\<close> on any other; \<open>str\<close> prints the twelve bytes in lower case.
\<close>

definition hex_digit :: "char \<Rightarrow> bool" where
  "hex_digit c = (c \<in> set ''0123456789abcdefABCDEF'')"

definition lower_hex :: "char \<Rightarrow> char" where
  "lower_hex c =
     (if c = CHR ''A'' then CHR ''a'' else if c = CHR ''B'' then CHR ''b''
      else if c = CHR ''C'' then CHR ''c'' else if c = CHR ''D'' then CHR ''d''
      else if c = CHR ''E'' then CHR ''e'' else if c = CHR ''F'' then CHR ''f'' else c)"

definition is_valid :: "string \<Rightarrow> bool" where
  "is_valid s = (length s = 24 \<and> list_all hex_digit s)"

definition ObjectId_of :: "string \<Rightarrow> exn + objectid" where
  "ObjectId_of s = (if is_valid s then Inr (ObjectId (map lower_hex s)) else Inl InvalidId)"

fun str_oid :: "objectid \<Rightarrow> string" where
  "str_oid (ObjectId h) = h"

definition wf_oid :: "objectid \<Rightarrow> bool" where
  "wf_oid oid = (length (str_oid oid) = 24 \<and>
     list_all (\<lambda>c. c \<in> set ''0123456789abcdef'') (str_oid oid))"

subsection \<open>The collection operations of the database driver\<close>

text \<open>
  A filter \<open>{k: v, ...}\<close> matches a document whose every field \<open>k\<close> equals \<open>v\<close>; a
  filter value \<open>null\<close> also matches a document without the field.
\<close>

definition field_matches :: "doc \<Rightarrow> string \<times> val \<Rightarrow> bool" where
  "field_matches d kv =
     (case map_of d (fst kv) of None \<Rightarrow> snd kv = VNull | Some w \<Rightarrow> w = snd kv)"

definition matches :: "query \<Rightarrow> doc \<Rightarrow> bool" where
  "matches q d = list_all (field_matches d) q"

definition find_one :: "collection \<Rightarrow> query \<Rightarrow> doc option" where
  "find_one c q = List.find (matches q) c"

definition count_documents :: "collection \<Rightarrow> query \<Rightarrow> int" where
  "count_documents c q = int (length (filter (matches q) c))"

fun insort_by :: "('a \<Rightarrow> 'a \<Rightarrow> bool) \<Rightarrow> 'a \<Rightarrow> 'a list \<Rightarrow> 'a list" where
  "insort_by le x [] = [x]"
| "insort_by le x (y # ys) = (if le x y then x # y # ys else y # insort_by le x ys)"

definition sort_by :: "('a \<Rightarrow> 'a \<Rightarrow> bool) \<Rightarrow> 'a list \<Rightarrow> 'a list" where
  "sort_by le xs = foldr (insort_by le) xs []"

definition apply_limit :: "int \<Rightarrow> 'a list \<Rightarrow> 'a list" where
  \<comment> \<open>\<open>limit(0)\<close> is no limit; a negative limit returns that many documents in one batch.\<close>
  "apply_limit l xs = (if l = 0 then xs else take (nat \<bar>l\<bar>) xs)"

definition find_cursor ::
  "collection \<Rightarrow> query \<Rightarrow> (doc \<Rightarrow> doc \<Rightarrow> bool) option \<Rightarrow> int \<Rightarrow> int \<Rightarrow> exn + doc list" where
  \<comment> \<open>\<open>find(q).skip(s).limit(l)\<close>, with \<open>.sort(...)\<close> when an order is given: the
      database sorts the matching documents first, then skips, then limits, whatever the
      order of the calls on the cursor. \<open>skip\<close> raises on a negative number.\<close>
  "find_cursor c q srt s l =
     (if s < 0 then Inl (ValueError ''skip must be >= 0'')
      else
        let ms = filter (matches q) c;
            os = (case srt of None \<Rightarrow> ms | Some le \<Rightarrow> sort_by le ms)
        in Inr (apply_limit l (drop (nat s) os)))"

definition insert_one :: "objectid \<Rightarrow> collection \<Rightarrow> doc \<Rightarrow> collection" where
  \<comment> \<open>The driver generates the identifier \<open>oid\<close> and stores the document under it.
      (The database keeps an instant to the millisecond; the model keeps it as written.)\<close>
  "insert_one oid c d = c @ [(''_id'', VOid oid) # d]"

definition set_fields :: "doc \<Rightarrow> doc \<Rightarrow> doc" where
  \<comment> \<open>\<open>{"$set": upd}\<close> applied to one document.\<close>
  "set_fields upd d = foldl (\<lambda>acc kv. AList.update (fst kv) (snd kv) acc) d upd"

fun update_one :: "collection \<Rightarrow> query \<Rightarrow> doc \<Rightarrow> collection" where
  "update_one [] q upd = []"
| "update_one (d # ds) q upd =
     (if matches q d then set_fields upd d # ds else d # update_one ds q upd)"

fun delete_one :: "collection \<Rightarrow> query \<Rightarrow> collection \<times> nat" where
  \<comment> \<open>The collection without its first matching document, and \<open>deleted_count\<close>.\<close>
  "delete_one [] q = ([], 0)"
| "delete_one (d # ds) q =
     (if matches q d then (ds, 1)
      else (case delete_one ds q of (ds', n) \<Rightarrow> (d # ds', n)))"

section \<open>Schemas (\<open>schemas/user.py\<close>, \<open>schemas/common.py\<close>)\<close>

datatype UserRole = USER | ADMIN

fun role_str :: "UserRole \<Rightarrow> string" where
  "role_str USER = ''user''"
| "role_str ADMIN = ''admin''"

record UserBase =
  email :: string
  username :: string
  full_name :: "string option"
  role :: UserRole

record UserCreate = UserBase +
  password :: string

text \<open>
  A field of a partial update is left out of the request (\<open>Unset\<close>), sent as \<open>null\<close>
  (\<open>Null\<close>) or sent with a value. Reading the attribute gives \<open>None\<close> in the first two
  cases, and so does \<open>dict()\<close>.
\<close>

datatype 'a field = Unset | Null | Value 'a

record UserUpdate =
  upd_email :: "string field"
  upd_username :: "string field"
  upd_full_name :: "string field"
  upd_password :: "string field"
  upd_role :: "UserRole field"

text \<open>
  \<open>UserInDB\<close> and \<open>UserResponse\<close> declare the same fields over \<open>UserBase\<close>: an
  identifier \<open>id\<close> (required), two flags and two timestamps. Neither declares a
  password hash, and neither gives \<open>id\<close> an alias.
\<close>

record UserInDB = UserBase +
  user_id :: string
  disabled :: bool
  is_superuser :: bool
  created_at :: int
  updated_at :: "int option"

type_synonym UserResponse = UserInDB

record PaginationParams =
  pg_page :: int
  pg_page_size :: int

record 'a PaginatedResponse =
  items :: "'a list"
  total :: int
  page :: int
  page_size :: int
  total_pages :: int

subsection \<open>Serialisation of the request schemas\<close>

definition opt_str :: "string option \<Rightarrow> val" where
  "opt_str x = (case x of None \<Rightarrow> VNull | Some s \<Rightarrow> VStr s)"

definition model_dump_exclude_password :: "UserCreate \<Rightarrow> doc" where
  \<comment> \<open>\<open>user_in.model_dump(exclude={"password"})\<close>\<close>
  "model_dump_exclude_password u =
     [(''email'', VStr (email u)), (''username'', VStr (username u)),
      (''full_name'', opt_str (full_name u)), (''role'', VStr (role_str (role u)))]"

definition field_item :: "string \<Rightarrow> ('a \<Rightarrow> val) \<Rightarrow> 'a field \<Rightarrow> doc" where
  "field_item k f x = (case x of Value v \<Rightarrow> [(k, f v)] | _ \<Rightarrow> [(k, VNull)])"

definition dict_all :: "UserUpdate \<Rightarrow> doc" where
  \<comment> \<open>\<open>obj_in.dict()\<close>: every field, \<open>None\<close> where it has no value.\<close>
  "dict_all u =
     field_item ''email'' VStr (upd_email u) @
     field_item ''username'' VStr (upd_username u) @
     field_item ''full_name'' VStr (upd_full_name u) @
     field_item ''password'' VStr (upd_password u) @
     field_item ''role'' (\<lambda>r. VStr (role_str r)) (upd_role u)"

subsection \<open>Validation of a document against \<open>UserResponse\<close>\<close>

text \<open>
  \<open>UserResponse(**d)\<close>: keys that are not fields are ignored, a
  missing required field or a value of the wrong shape is a validation error, which lists
  the fields at fault. The check of the address syntax by \<open>EmailStr\<close> and the coercion of
  a scalar of one type into another are not part of the model: a string is taken as an
  address, and a value of another type than the field's is rejected.
\<close>

definition v_email :: "doc \<Rightarrow> string option" where
  "v_email d = (case map_of d ''email'' of Some (VStr s) \<Rightarrow> Some s | _ \<Rightarrow> None)"

definition v_username :: "doc \<Rightarrow> string option" where
  "v_username d =
     (case map_of d ''username'' of
        Some (VStr s) \<Rightarrow> if 3 \<le> length s \<and> length s \<le> 50 then Some s else None
      | _ \<Rightarrow> None)"

definition v_full_name :: "doc \<Rightarrow> string option option" where
  "v_full_name d =
     (case map_of d ''full_name'' of
        None \<Rightarrow> Some None
      | Some VNull \<Rightarrow> Some None
      | Some (VStr s) \<Rightarrow> if length s \<le> 100 then Some (Some s) else None
      | _ \<Rightarrow> None)"

definition v_role :: "doc \<Rightarrow> UserRole option" where
  "v_role d =
     (case map_of d ''role'' of
        None \<Rightarrow> Some USER
      | Some (VStr s) \<Rightarrow>
          if s = ''user'' then Some USER else if s = ''admin'' then Some ADMIN else None
      | _ \<Rightarrow> None)"

definition v_id :: "doc \<Rightarrow> string option" where
  "v_id d = (case map_of d ''id'' of Some (VStr s) \<Rightarrow> Some s | _ \<Rightarrow> None)"

definition v_flag :: "string \<Rightarrow> doc \<Rightarrow> bool option" where
  "v_flag k d =
     (case map_of d k of None \<Rightarrow> Some False | Some (VBool b) \<Rightarrow> Some b | _ \<Rightarrow> None)"

definition v_created_at :: "int \<Rightarrow> doc \<Rightarrow> int option" where
  \<comment> \<open>The default factory reads the clock.\<close>
  "v_created_at now d =
     (case map_of d ''created_at'' of None \<Rightarrow> Some now | Some (VDate t) \<Rightarrow> Some t | _ \<Rightarrow> None)"

definition v_updated_at :: "doc \<Rightarrow> int option option" where
  "v_updated_at d =
     (case map_of d ''updated_at'' of
        None \<Rightarrow> Some None
      | Some VNull \<Rightarrow> Some None
      | Some (VDate t) \<Rightarrow> Some (Some t)
      | _ \<Rightarrow> None)"

definition field_error :: "string \<Rightarrow> 'a option \<Rightarrow> string list" where
  "field_error k x = (case x of None \<Rightarrow> [k] | Some _ \<Rightarrow> [])"

definition validation_errors :: "int \<Rightarrow> doc \<Rightarrow> string list" where
  "validation_errors now d =
     field_error ''email'' (v_email d) @ field_error ''username'' (v_username d) @
     field_error ''full_name'' (v_full_name d) @ field_error ''role'' (v_role d) @
     field_error ''id'' (v_id d) @ field_error ''disabled'' (v_flag ''disabled'' d) @
     field_error ''is_superuser'' (v_flag ''is_superuser'' d) @
     field_error ''created_at'' (v_created_at now d) @
     field_error ''updated_at'' (v_updated_at d)"

definition validated_user :: "int \<Rightarrow> doc \<Rightarrow> UserInDB option" where
  "validated_user now d =
     Option.bind (v_email d) (\<lambda>e.
     Option.bind (v_username d) (\<lambda>u.
     Option.bind (v_full_name d) (\<lambda>f.
     Option.bind (v_role d) (\<lambda>r.
     Option.bind (v_id d) (\<lambda>i.
     Option.bind (v_flag ''disabled'' d) (\<lambda>dis.
     Option.bind (v_flag ''is_superuser'' d) (\<lambda>su.
     Option.bind (v_created_at now d) (\<lambda>c.
     Option.bind (v_updated_at d) (\<lambda>up.
       Some \<lparr>email = e, username = u, full_name = f, role = r, user_id = i,
             disabled = dis, is_superuser = su, created_at = c, updated_at = up\<rparr>)))))))))"

definition UserResponse_of :: "int \<Rightarrow> doc \<Rightarrow> exn + UserResponse" where
  \<comment> \<open>\<open>UserResponse(**d)\<close>\<close>
  "UserResponse_of now d =
     (case validated_user now d of
        Some u \<Rightarrow> Inr u
      | None \<Rightarrow> Inl (ValidationError (validation_errors now d)))"

section \<open>Passwords and tokens (\<open>core/security.py\<close>)\<close>

text \<open>
  The hashing library is a parameter: \<open>H salt p\<close> is the hash \<open>get_password_hash\<close>
  returns for the password \<open>p\<close> when the library draws the salt \<open>salt\<close>, and \<open>V p h\<close> is
  \<open>verify_password\<close>. The token library is modelled by an ideal signature: a token is a
  payload signed with a key, or a string that is no token; decoding checks the key, then
  the \<open>exp\<close> claim against the clock, both in whole seconds, and rejects a token whose
  \<open>exp\<close> is less than the current second.
\<close>

datatype jval = JStr string | JInt int

type_synonym claims = "(string \<times> jval) list"

datatype token = Signed claims string | Malformed string

definition jwt_encode :: "claims \<Rightarrow> string \<Rightarrow> token" where
  "jwt_encode c key = Signed c key"

definition jwt_decode :: "int \<Rightarrow> token \<Rightarrow> string \<Rightarrow> exn + claims" where
  "jwt_decode now t key =
     (case t of
        Malformed _ \<Rightarrow> Inl JWTError
      | Signed c k \<Rightarrow>
          if k = key then
            (case map_of c ''exp'' of
               None \<Rightarrow> Inr c
             | Some (JInt e) \<Rightarrow> if e < now div 1000000 then Inl JWTError else Inr c
             | Some (JStr _) \<Rightarrow> Inl JWTError)
          else Inl JWTError)"

definition expire_at :: "int \<Rightarrow> int option \<Rightarrow> int" where
  \<comment> \<open>The instant \<open>expire\<close> of \<open>create_access_token\<close>: \<open>if expires_delta:\<close> is false
      for \<open>None\<close> and for a zero duration, and then the default of 15 minutes applies.\<close>
  "expire_at now expires_delta =
     (case expires_delta of
        Some d \<Rightarrow> if d \<noteq> 0 then now + d else now + 15 * 60 * 1000000
      | None \<Rightarrow> now + 15 * 60 * 1000000)"

definition create_access_token :: "string \<Rightarrow> int \<Rightarrow> claims \<Rightarrow> int option \<Rightarrow> token" where
  \<comment> \<open>The library writes the \<open>exp\<close> instant as whole seconds since the epoch.\<close>
  "create_access_token SECRET_KEY now data expires_delta =
     (let expire = expire_at now expires_delta
      in jwt_encode (AList.update ''exp'' (JInt (expire div 1000000)) data) SECRET_KEY)"

definition decode_token :: "string \<Rightarrow> int \<Rightarrow> token \<Rightarrow> exn + claims option" where
  "decode_token SECRET_KEY now t =
     (case jwt_decode now t SECRET_KEY of
        Inr payload \<Rightarrow> Inr (Some payload)
      | Inl JWTError \<Rightarrow> Inr None
      | Inl e \<Rightarrow> Inl e)"

section \<open>The exception handlers (\<open>main.py\<close>)\<close>

definition http_status :: "exn \<Rightarrow> int" where
  \<comment> \<open>The status of the response for an exception that leaves a handler or a dependency:
      an \<open>HTTPException\<close> answers with its own status, a request validation error with
      422, anything else with 500.\<close>
  "http_status e =
     (case e of
        HTTPException c _ _ \<Rightarrow> c
      | RequestValidationError _ \<Rightarrow> 422
      | _ \<Rightarrow> 500)"

section \<open>The user repository (\<open>repository/user.py\<close>)\<close>

text \<open>
  Every method of \<open>UserRepository\<close> begins with \<open>collection = await cls.get_collection()\<close>,
  and \<open>get_collection\<close> with \<open>db = await get_database()\<close>. But \<open>get_database\<close>
  (\<open>db/session.py\<close>) is a plain function that returns the database handle, and the
  handle is not awaitable: the \<open>await\<close> raises, whatever the arguments, and no method
  reads or writes the collection.
\<close>

definition get_collection :: exn where
  "get_collection = TypeError ''object AsyncIOMotorDatabase can not be used in await expression''"

definition UserRepository_get :: "collection \<Rightarrow> string \<Rightarrow> exn + UserInDB option" where
  "UserRepository_get db uid = Inl get_collection"

definition UserRepository_get_by_email :: "collection \<Rightarrow> string \<Rightarrow> exn + UserInDB option" where
  "UserRepository_get_by_email db e = Inl get_collection"

definition UserRepository_get_by_username ::
  "collection \<Rightarrow> string \<Rightarrow> exn + UserInDB option" where
  "UserRepository_get_by_username db u = Inl get_collection"

definition UserRepository_create ::
  "collection \<Rightarrow> UserCreate \<Rightarrow> (exn + UserInDB) \<times> collection" where
  "UserRepository_create db user = (Inl get_collection, db)"

definition UserRepository_update ::
  "collection \<Rightarrow> string \<Rightarrow> UserUpdate \<Rightarrow> (exn + UserInDB option) \<times> collection" where
  "UserRepository_update db uid user = (Inl get_collection, db)"

definition UserRepository_delete :: "collection \<Rightarrow> string \<Rightarrow> (exn + bool) \<times> collection" where
  "UserRepository_delete db uid = (Inl get_collection, db)"

definition UserRepository_authenticate ::
  "collection \<Rightarrow> string \<Rightarrow> string \<Rightarrow> exn + UserInDB option" where
  \<comment> \<open>Its first line is \<open>user = await cls.get_by_username(username)\<close>.\<close>
  "UserRepository_authenticate db uname pw = Inl get_collection"

section \<open>The generic paginated helper (\<open>db/pagination.py\<close>)\<close>

text \<open>
  \<open>CRUDPaginatedMongo\<close> is generic in its response model: \<open>model d\<close> is
  \<open>self.model(**d)\<close>, which may raise.
\<close>

definition if_doc :: "doc option \<Rightarrow> doc option" where
  \<comment> \<open>The test \<open>if user\<close> on the result of \<open>find_one\<close>: \<open>None\<close> and the empty dict
      are false.\<close>
  "if_doc r = (case r of None \<Rightarrow> None | Some d \<Rightarrow> if d = [] then None else Some d)"

fun map_exn :: "('a \<Rightarrow> exn + 'b) \<Rightarrow> 'a list \<Rightarrow> exn + 'b list" where
  "map_exn f [] = Inr []"
| "map_exn f (x # xs) =
     (case f x of
        Inl e \<Rightarrow> Inl e
      | Inr y \<Rightarrow> (case map_exn f xs of Inl e \<Rightarrow> Inl e | Inr ys \<Rightarrow> Inr (y # ys)))"

definition model_if :: "(doc \<Rightarrow> exn + 'm) \<Rightarrow> doc option \<Rightarrow> exn + 'm option" where
  \<comment> \<open>\<open>self.model(**item) if item else None\<close>\<close>
  "model_if model r =
     (case if_doc r of
        None \<Rightarrow> Inr None
      | Some d \<Rightarrow> (case model d of Inl e \<Rightarrow> Inl e | Inr m \<Rightarrow> Inr (Some m)))"

definition get_multi ::
  "(doc \<Rightarrow> exn + 'm) \<Rightarrow> collection \<Rightarrow> PaginationParams \<Rightarrow> query option
     \<Rightarrow> (doc \<Rightarrow> doc \<Rightarrow> bool) option \<Rightarrow> exn + 'm PaginatedResponse" where
  "get_multi model db pagination query srt =
     (let query = (case query of None \<Rightarrow> [] | Some q \<Rightarrow> q);
          skip = (pg_page pagination - 1) * pg_page_size pagination;
          total = count_documents db query
      in if pg_page_size pagination = 0 then Inl ZeroDivisionError
         else
           let total_pages = (total + pg_page_size pagination - 1) div pg_page_size pagination
           in (case find_cursor db query srt skip (pg_page_size pagination) of
                 Inl e \<Rightarrow> Inl e
               | Inr docs \<Rightarrow>
                   (case map_exn model docs of
                      Inl e \<Rightarrow> Inl e
                    | Inr its \<Rightarrow>
                        Inr \<lparr>items = its, total = total, page = pg_page pagination,
                             page_size = pg_page_size pagination,
                             total_pages = total_pages\<rparr>)))"

definition CRUD_get :: "(doc \<Rightarrow> exn + 'm) \<Rightarrow> collection \<Rightarrow> string \<Rightarrow> exn + 'm option" where
  "CRUD_get model db ident =
     (if \<not> is_valid ident then Inr None
      else
        (case ObjectId_of ident of
           Inl e \<Rightarrow> Inl e
         | Inr oid \<Rightarrow> model_if model (find_one db [(''_id'', VOid oid)])))"

definition CRUD_create ::
  "(doc \<Rightarrow> exn + 'm) \<Rightarrow> objectid \<Rightarrow> collection \<Rightarrow> doc \<Rightarrow> (exn + 'm) \<times> collection" where
  "CRUD_create model oid db obj_in =
     (let db' = insert_one oid db obj_in
      in (case find_one db' [(''_id'', VOid oid)] of
            None \<Rightarrow> (Inl (TypeError ''argument after ** must be a mapping''), db')
          | Some created \<Rightarrow> (model created, db')))"

definition CRUD_update ::
  "(doc \<Rightarrow> exn + 'm) \<Rightarrow> collection \<Rightarrow> string \<Rightarrow> doc \<Rightarrow> bool
     \<Rightarrow> (exn + 'm option) \<times> collection" where
  \<comment> \<open>\<open>obj_in\<close> stands for \<open>obj_in.dict()\<close>.\<close>
  "CRUD_update model db ident obj_in return_updated =
     (if \<not> is_valid ident then (Inr None, db)
      else
        let update_data = filter (\<lambda>kv. snd kv \<noteq> VNull) obj_in
        in if update_data = [] then (CRUD_get model db ident, db)
           else
             (case ObjectId_of ident of
                Inl e \<Rightarrow> (Inl e, db)
              | Inr oid \<Rightarrow>
                  let q = [(''_id'', VOid oid)];
                      db' = update_one db q update_data;
                      result = (if return_updated then find_one db' q else find_one db q)
                  in (model_if model result, db')))"

definition CRUD_delete :: "collection \<Rightarrow> string \<Rightarrow> (exn + bool) \<times> collection" where
  "CRUD_delete db ident =
     (if \<not> is_valid ident then (Inr False, db)
      else
        (case ObjectId_of ident of
           Inl e \<Rightarrow> (Inl e, db)
         | Inr oid \<Rightarrow>
             (case delete_one db [(''_id'', VOid oid)] of (db', n) \<Rightarrow> (Inr (n > 0), db'))))"

section \<open>The user service (\<open>services/user_service.py\<close>)\<close>

definition convert_to_response :: "int \<Rightarrow> doc option \<Rightarrow> exn + UserResponse option" where
  \<comment> \<open>\<open>_convert_to_response\<close>: \<open>user["id"] = str(user["_id"])\<close>, then
      \<open>UserResponse(**user)\<close>. The driver gives every document it inserts an \<open>ObjectId\<close>;
      printing an identifier of another type is left out of the model.\<close>
  "convert_to_response now user =
     (case if_doc user of
        None \<Rightarrow> Inr None
      | Some d \<Rightarrow>
          (case map_of d ''_id'' of
             None \<Rightarrow> Inl (KeyError ''_id'')
           | Some (VOid oid) \<Rightarrow>
               (case UserResponse_of now (AList.update ''id'' (VStr (str_oid oid)) d) of
                  Inl e \<Rightarrow> Inl e
                | Inr u \<Rightarrow> Inr (Some u))
           | Some _ \<Rightarrow> Inl (NotModelled ''str(_id)'')))"

definition UserService_get_user ::
  "int \<Rightarrow> collection \<Rightarrow> string \<Rightarrow> exn + UserResponse option" where
  "UserService_get_user now db uid =
     (if \<not> is_valid uid then Inr None
      else
        (case ObjectId_of uid of
           Inl e \<Rightarrow> Inl e
         | Inr oid \<Rightarrow> convert_to_response now (find_one db [(''_id'', VOid oid)])))"

definition UserService_get_by_email ::
  "int \<Rightarrow> collection \<Rightarrow> string \<Rightarrow> exn + UserResponse option" where
  "UserService_get_by_email now db e =
     convert_to_response now (find_one db [(''email'', VStr e)])"

definition UserService_get_by_username ::
  "int \<Rightarrow> collection \<Rightarrow> val \<Rightarrow> exn + UserResponse option" where
  \<comment> \<open>The argument is whatever the caller passes: a string, or the \<open>sub\<close> claim of a
      token.\<close>
  "UserService_get_by_username now db u =
     convert_to_response now (find_one db [(''username'', u)])"

definition get_users_all ::
  "int \<Rightarrow> collection \<Rightarrow> int \<Rightarrow> int \<Rightarrow> exn + UserResponse option PaginatedResponse" where
  \<comment> \<open>The second part of \<open>get_users\<close> ("for admins, return all users with
      pagination"); \<open>limit\<close> is the clamped one.\<close>
  "get_users_all now db skip limit =
     (let total = count_documents db [] in
      case find_cursor db [] None skip limit of
        Inl e \<Rightarrow> Inl e
      | Inr cursor \<Rightarrow>
          (case map_exn (\<lambda>user. convert_to_response now (Some user)) cursor of
             Inl e \<Rightarrow> Inl e
           | Inr users \<Rightarrow>
               Inr \<lparr>items = users, total = total,
                    page = (if limit > 0 then skip div limit + 1 else 1),
                    page_size = (if users \<noteq> [] then min limit (int (length users)) else 0),
                    total_pages = (if limit > 0 then (total + limit - 1) div limit else 1)\<rparr>))"

definition get_users_self ::
  "int \<Rightarrow> collection \<Rightarrow> UserInDB \<Rightarrow> exn + UserResponse option PaginatedResponse" where
  \<comment> \<open>The first part of \<open>get_users\<close> ("if not an admin, only return the current
      user's data").\<close>
  "get_users_self now db current_user =
     (case UserService_get_user now db (user_id current_user) of
        Inl e \<Rightarrow> Inl e
      | Inr None \<Rightarrow> Inr \<lparr>items = [], total = 0, page = 1, page_size = 1, total_pages = 1\<rparr>
      | Inr (Some user) \<Rightarrow>
          Inr \<lparr>items = [Some user], total = 1, page = 1, page_size = 1, total_pages = 1\<rparr>)"

definition get_users ::
  "int \<Rightarrow> collection \<Rightarrow> int \<Rightarrow> int \<Rightarrow> UserInDB option
     \<Rightarrow> exn + UserResponse option PaginatedResponse" where
  "get_users now db skip limit current_user =
     (let limit = max 1 (min 100 limit) in
      case current_user of
        None \<Rightarrow> get_users_all now db skip limit
      | Some cu \<Rightarrow>
          if \<not> is_superuser cu then get_users_self now db cu
          else get_users_all now db skip limit)"

definition create_user ::
  "(nat \<Rightarrow> string \<Rightarrow> string) \<Rightarrow> nat \<Rightarrow> int \<Rightarrow> objectid \<Rightarrow> collection \<Rightarrow> UserCreate
     \<Rightarrow> (exn + UserResponse option) \<times> collection" where
  "create_user H salt now oid db user_in =
     (case UserService_get_by_email now db (email user_in) of
        Inl e \<Rightarrow> (Inl e, db)
      | Inr (Some _) \<Rightarrow> (Inr None, db)
      | Inr None \<Rightarrow>
          (case UserService_get_by_username now db (VStr (username user_in)) of
             Inl e \<Rightarrow> (Inl e, db)
           | Inr (Some _) \<Rightarrow> (Inr None, db)
           | Inr None \<Rightarrow>
               let hashed_password = H salt (password user_in);
                   user_data = model_dump_exclude_password user_in @
                     [(''hashed_password'', VStr hashed_password),
                      (''created_at'', VDate now), (''updated_at'', VDate now)];
                   db' = insert_one oid db user_data
               in (convert_to_response now (find_one db' [(''_id'', VOid oid)]), db')))"

definition UserService_update ::
  "int \<Rightarrow> collection \<Rightarrow> string \<Rightarrow> UserUpdate \<Rightarrow> (exn + UserResponse option) \<times> collection" where
  \<comment> \<open>\<open>UserService().update(id, obj_in)\<close>: the method \<open>update\<close> that \<open>UserService\<close>
      inherits from \<open>CRUDPaginatedMongo\<close>, on the users collection, with
      \<open>self.model = UserResponse\<close> and \<open>return_updated\<close> left at its default.\<close>
  "UserService_update now db ident obj_in =
     CRUD_update (UserResponse_of now) db ident (dict_all obj_in) True"

text \<open>
  The static methods \<open>update_user\<close>, \<open>delete_user\<close> and \<open>authenticate_user\<close> begin by
  reading the name \<open>UserRepository\<close>, which \<open>services/user_service.py\<close> never imports.
\<close>

definition name_UserRepository :: exn where
  "name_UserRepository = NameError ''UserRepository''"

definition update_user ::
  "collection \<Rightarrow> string \<Rightarrow> UserUpdate \<Rightarrow> (exn + UserInDB option) \<times> collection" where
  "update_user db uid user_update = (Inl name_UserRepository, db)"

definition delete_user :: "collection \<Rightarrow> string \<Rightarrow> (exn + bool) \<times> collection" where
  "delete_user db uid = (Inl name_UserRepository, db)"

definition authenticate_user :: "collection \<Rightarrow> string \<Rightarrow> string \<Rightarrow> exn + UserInDB" where
  "authenticate_user db uname pw = Inl name_UserRepository"

definition ACCESS_TOKEN_EXPIRE_MINUTES :: int where
  "ACCESS_TOKEN_EXPIRE_MINUTES = 60 * 24 * 7"

definition create_access_token_for_user :: "string \<Rightarrow> int \<Rightarrow> UserInDB \<Rightarrow> token" where
  "create_access_token_for_user SECRET_KEY now user =
     create_access_token SECRET_KEY now [(''sub'', JStr (username user))]
       (Some (ACCESS_TOKEN_EXPIRE_MINUTES * 60 * 1000000))"

section \<open>The authentication dependencies (\<open>core/security.py\<close>)\<close>

definition credentials_exception :: exn where
  "credentials_exception =
     HTTPException 401 ''Could not validate credentials'' [(''WWW-Authenticate'', ''Bearer'')]"

definition get_current_user :: "string \<Rightarrow> int \<Rightarrow> token option \<Rightarrow> exn + UserInDB" where
  \<comment> \<open>\<open>oauth2_scheme\<close> rejects a request without a bearer token. For a token that
      decodes and has a subject, the function calls \<open>UserService.get_by_username\<close>, an
      instance method, on the class with the keyword \<open>username\<close> only.\<close>
  "get_current_user SECRET_KEY now tok =
     (case tok of
        None \<Rightarrow> Inl (HTTPException 401 ''Not authenticated'' [(''WWW-Authenticate'', ''Bearer'')])
      | Some t \<Rightarrow>
          (case decode_token SECRET_KEY now t of
             Inl e \<Rightarrow> Inl e
           | Inr None \<Rightarrow> Inl credentials_exception
           | Inr (Some payload) \<Rightarrow>
               (case map_of payload ''sub'' of
                  None \<Rightarrow> Inl credentials_exception
                | Some uname \<Rightarrow>
                    Inl (TypeError
                      ''get_by_username() missing 1 required positional argument: self''))))"

definition get_current_active_user :: "UserInDB \<Rightarrow> exn + UserInDB" where
  \<comment> \<open>The argument is what the dependency \<open>get_current_user\<close> returns.\<close>
  "get_current_active_user current_user =
     (if disabled current_user then Inl (HTTPException 400 ''Inactive user'' [])
      else Inr current_user)"

section \<open>The routes (\<open>api/v1/endpoints\<close>)\<close>

definition register :: "collection \<Rightarrow> UserCreate \<Rightarrow> (exn + UserResponse option) \<times> collection" where
  \<comment> \<open>\<open>POST /auth/register\<close>: the handler calls \<open>UserService.create_user(user_in)\<close>, an
      instance method, on the class: the request takes the place of \<open>self\<close>, and the
      call raises for the missing argument before it reaches the database.\<close>
  "register db user_in =
     (Inl (TypeError ''create_user() missing 1 required positional argument: user_in''), db)"

definition login_access_token :: "string \<Rightarrow> int \<Rightarrow> collection \<Rightarrow> string \<Rightarrow> string \<Rightarrow> exn + token" where
  \<comment> \<open>\<open>POST /auth/login/access-token\<close>\<close>
  "login_access_token SECRET_KEY now db uname pw =
     (case authenticate_user db uname pw of
        Inl e \<Rightarrow> Inl e
      | Inr user \<Rightarrow> Inr (create_access_token_for_user SECRET_KEY now user))"

definition read_users ::
  "int \<Rightarrow> collection \<Rightarrow> int \<Rightarrow> int \<Rightarrow> UserInDB \<Rightarrow> exn + UserResponse option PaginatedResponse" where
  \<comment> \<open>The query parameters are declared \<open>skip >= 0\<close> and \<open>1 <= limit <= 100\<close>.\<close>
  "read_users now db skip limit current_user =
     (if skip < 0 \<or> limit < 1 \<or> 100 < limit
      then Inl (RequestValidationError
                  ((if skip < 0 then [''skip''] else []) @
                   (if limit < 1 \<or> 100 < limit then [''limit''] else [])))
      else get_users now db skip limit (Some current_user))"

definition read_user_by_id :: "string \<Rightarrow> UserInDB \<Rightarrow> exn + UserResponse" where
  \<comment> \<open>For an identifier that is well formed the handler calls \<open>UserService.get_user\<close>,
      an instance method, on the class.\<close>
  "read_user_by_id uid current_user =
     (if \<not> is_valid uid then Inl (HTTPException 404 ''User not found'' [])
      else Inl (TypeError ''get_user() missing 1 required positional argument: user_id''))"

definition read_user_me :: "UserInDB \<Rightarrow> exn + UserResponse" where
  "read_user_me current_user = Inr current_user"

subsection \<open>Route matching\<close>

text \<open>
  The router tries its routes in the order of their declaration and calls the first one
  whose path template and method both match. A parameter \<open>{name}\<close> matches one non-empty
  path segment. Paths are relative to the router's prefix \<open>/users\<close>.
\<close>

datatype piece = Lit string | Param string

datatype endpoint =
  Ep_read_users | Ep_read_user_by_id | Ep_read_user_me | Ep_update_user_me | Ep_delete_user_me

datatype routed = Full endpoint "(string \<times> string) list" | Partial | NoMatch

fun match_path :: "piece list \<Rightarrow> string \<Rightarrow> (string \<times> string) list option" where
  "match_path [] s = (if s = [] then Some [] else None)"
| "match_path (Lit l # ps) s =
     (if take (length l) s = l then match_path ps (drop (length l) s) else None)"
| "match_path (Param n # ps) s =
     (let v = takeWhile (\<lambda>c. c \<noteq> CHR ''/'') s
      in if v = [] then None
         else (case match_path ps (dropWhile (\<lambda>c. c \<noteq> CHR ''/'') s) of
                 None \<Rightarrow> None
               | Some bs \<Rightarrow> Some ((n, v) # bs)))"

fun route_request :: "(string \<times> piece list \<times> endpoint) list \<Rightarrow> string \<Rightarrow> string \<Rightarrow> routed" where
  "route_request [] m p = NoMatch"
| "route_request ((m', tpl, ep) # rs) m p =
     (case match_path tpl p of
        None \<Rightarrow> route_request rs m p
      | Some bs \<Rightarrow>
          if m' = m then Full ep bs
          else (case route_request rs m p of NoMatch \<Rightarrow> Partial | r \<Rightarrow> r))"

definition users_router :: "(string \<times> piece list \<times> endpoint) list" where
  "users_router =
     [(''GET'', [Lit ''/''], Ep_read_users),
      (''GET'', [Lit ''/'', Param ''user_id''], Ep_read_user_by_id),
      (''GET'', [Lit ''/me''], Ep_read_user_me),
      (''PUT'', [Lit ''/me''], Ep_update_user_me),
      (''DELETE'', [Lit ''/me''], Ep_delete_user_me)]"

datatype response =
    UserBody UserResponse
  | PageBody "UserResponse option PaginatedResponse"

definition users_GET ::
  "string \<Rightarrow> int \<Rightarrow> collection \<Rightarrow> string \<Rightarrow> token option \<Rightarrow> int \<Rightarrow> int \<Rightarrow> exn + response" where
  \<comment> \<open>A \<open>GET\<close> request to the users router: the route is chosen, its dependencies
      \<open>get_current_user\<close> and \<open>get_current_active_user\<close> are resolved, then the handler
      runs. \<open>skip\<close> and \<open>limit\<close> are the query parameters. \<open>Inr\<close> holds the value the
      handler returns, before the response model serialises it.\<close>
  "users_GET SECRET_KEY now db path tok skip limit =
     (case route_request users_router ''GET'' path of
        NoMatch \<Rightarrow> Inl (HTTPException 404 ''Not Found'' [])
      | Partial \<Rightarrow> Inl (HTTPException 405 ''Method Not Allowed'' [])
      | Full ep bs \<Rightarrow>
          (case get_current_user SECRET_KEY now tok of
             Inl e \<Rightarrow> Inl e
           | Inr user \<Rightarrow>
               (case get_current_active_user user of
                  Inl e \<Rightarrow> Inl e
                | Inr current_user \<Rightarrow>
                    (case ep of
                       Ep_read_users \<Rightarrow>
                         (case read_users now db skip limit current_user of
                            Inl e \<Rightarrow> Inl e | Inr r \<Rightarrow> Inr (PageBody r))
                     | Ep_read_user_by_id \<Rightarrow>
                         (case map_of bs ''user_id'' of
                            None \<Rightarrow> Inl (RequestValidationError [''user_id''])
                          | Some uid \<Rightarrow>
                              (case read_user_by_id uid current_user of
                                 Inl e \<Rightarrow> Inl e | Inr u \<Rightarrow> Inr (UserBody u)))
                     | Ep_read_user_me \<Rightarrow>
                         (case read_user_me current_user of
                            Inl e \<Rightarrow> Inl e | Inr u \<Rightarrow> Inr (UserBody u))
                     | _ \<Rightarrow> Inl (HTTPException 405 ''Method Not Allowed'' [])))))"

section \<open>Notions used by the statements\<close>

definition wf_collection :: "collection \<Rightarrow> bool" where
  \<comment> \<open>What the database guarantees of a collection: every document has an \<open>_id\<close>, here
      an \<open>ObjectId\<close> as the driver generates them, and no two documents share one.\<close>
  "wf_collection db =
     (list_all (\<lambda>d. case map_of d ''_id'' of Some (VOid oid) \<Rightarrow> wf_oid oid | _ \<Rightarrow> False) db \<and>
      distinct (map (\<lambda>d. map_of d ''_id'') db))"

definition matching ::
  "collection \<Rightarrow> query option \<Rightarrow> (doc \<Rightarrow> doc \<Rightarrow> bool) option \<Rightarrow> doc list" where
  \<comment> \<open>The documents that match the filter, in the order of the listing.\<close>
  "matching db query srt =
     (let ms = filter (matches (case query of None \<Rightarrow> [] | Some q \<Rightarrow> q)) db
      in case srt of None \<Rightarrow> ms | Some le \<Rightarrow> sort_by le ms)"

definition page_docs ::
  "collection \<Rightarrow> PaginationParams \<Rightarrow> query option \<Rightarrow> (doc \<Rightarrow> doc \<Rightarrow> bool) option \<Rightarrow> doc list" where
  \<comment> \<open>The matching documents left after skipping \<open>(page - 1) * page_size\<close> of them, at
      most \<open>page_size\<close> of them.\<close>
  "page_docs db p query srt =
     take (nat (pg_page_size p))
       (drop (nat ((pg_page p - 1) * pg_page_size p)) (matching db query srt))"

definition stored_under :: "collection \<Rightarrow> string \<Rightarrow> doc option" where
  \<comment> \<open>The document stored under the identifier that a string denotes, if any.\<close>
  "stored_under db uid =
     (case ObjectId_of uid of
        Inl _ \<Rightarrow> None
      | Inr oid \<Rightarrow> find_one db [(''_id'', VOid oid)])"

section \<open>Concrete inputs\<close>

definition ex_hash :: "nat \<Rightarrow> string \<Rightarrow> string" where
  "ex_hash salt p = ''$2b$'' @ rev p"

definition ex_oid1 :: objectid where
  "ex_oid1 = ObjectId ''0000000000000000000000a1''"

definition ex_oid2 :: objectid where
  "ex_oid2 = ObjectId ''0000000000000000000000a2''"

definition ex_alice :: UserCreate where
  "ex_alice = \<lparr>email = ''a@x.com'', username = ''alice'', full_name = Some ''Alice'',
              role = USER, password = ''longenough123''\<rparr>"

definition ex_alice_again :: UserCreate where
  "ex_alice_again = \<lparr>email = ''other@x.com'', username = ''alice'', full_name = None,
                    role = USER, password = ''longenough456''\<rparr>"

definition ex_alice_doc :: doc where
  "ex_alice_doc =
     [(''_id'', VOid ex_oid1), (''email'', VStr ''a@x.com''), (''username'', VStr ''alice''),
      (''full_name'', VStr ''Alice''), (''role'', VStr ''user''),
      (''hashed_password'', VStr (ex_hash 7 ''longenough123'')),
      (''created_at'', VDate 1000), (''updated_at'', VDate 1000)]"

definition ex_alice_user :: UserInDB where
  "ex_alice_user =
     \<lparr>email = ''a@x.com'', username = ''alice'', full_name = Some ''Alice'', role = USER,
      user_id = ''0000000000000000000000a1'', disabled = False, is_superuser = False,
      created_at = 1000, updated_at = Some 1000\<rparr>"

definition ex_root_doc :: doc where
  "ex_root_doc =
     [(''_id'', VOid ex_oid2), (''email'', VStr ''root@x.com''), (''username'', VStr ''root''),
      (''hashed_password'', VStr (ex_hash 3 ''rootpassword'')),
      (''is_superuser'', VBool True), (''created_at'', VDate 500)]"

definition ex_root_user :: UserInDB where
  "ex_root_user =
     \<lparr>email = ''root@x.com'', username = ''root'', full_name = None, role = USER,
      user_id = ''0000000000000000000000a2'', disabled = False, is_superuser = True,
      created_at = 500, updated_at = None\<rparr>"

definition ex_db1 :: collection where
  "ex_db1 = [ex_alice_doc]"

definition ex_db2 :: collection where
  "ex_db2 = [ex_alice_doc, ex_root_doc]"

definition ex_token :: "string \<Rightarrow> token" where
  \<comment> \<open>The token the login flow mints at instant 1000 for a user name.\<close>
  "ex_token u =
     Signed [(''sub'', JStr u), (''exp'', JInt 604800)] ''secret''"

definition ex_unset :: UserUpdate where
  "ex_unset = \<lparr>upd_email = Unset, upd_username = Unset, upd_full_name = Unset,
               upd_password = Unset, upd_role = Unset\<rparr>"

section \<open>Paginated listing of the generic helper\<close>

lemma length_insort_by: "length (insort_by le x xs) = Suc (length xs)"
  by (induction xs) auto

lemma length_sort_by: "length (sort_by le xs) = length xs"
  by (induction xs) (auto simp: sort_by_def length_insort_by)

lemma map_exn_Inl: "map_exn f xs = Inl e \<Longrightarrow> \<exists>x\<in>set xs. f x = Inl e"
  by (induction xs) (auto split: sum.splits)

lemma map_exn_Inr_length: "map_exn f xs = Inr ys \<Longrightarrow> length ys = length xs"
  by (induction xs arbitrary: ys) (auto split: sum.splits)

lemma ceil_div_bounds:
  fixes t ps :: int
  assumes "0 < ps"
  shows "t \<le> ((t + ps - 1) div ps) * ps" and "((t + ps - 1) div ps - 1) * ps < t"
proof -
  let ?q = "(t + ps - 1) div ps" and ?r = "(t + ps - 1) mod ps"
  have eq: "?q * ps + ?r = t + ps - 1" by simp
  have r: "0 \<le> ?r" "?r < ps" using assms by simp_all
  from eq r show "t \<le> ?q * ps" by linarith
  have "(?q - 1) * ps = ?q * ps - ps" by (simp add: algebra_simps)
  with eq r show "(?q - 1) * ps < t" by linarith
qed

lemma ceil_div:
  fixes t ps :: int
  assumes "0 < ps"
  shows "\<lceil>real_of_int t / real_of_int ps\<rceil> = (t + ps - 1) div ps"
proof (rule ceiling_unique)
  let ?q = "(t + ps - 1) div ps"
  have ps: "0 < real_of_int ps" using assms by simp
  have "real_of_int ((?q - 1) * ps) < real_of_int t"
    using ceil_div_bounds(2)[OF assms, of t] by (simp only: of_int_less_iff)
  then have "(real_of_int ?q - 1) * real_of_int ps < real_of_int t" by simp
  then show "real_of_int ?q - 1 < real_of_int t / real_of_int ps"
    using ps by (simp add: pos_less_divide_eq)
  have "real_of_int t \<le> real_of_int (?q * ps)"
    using ceil_div_bounds(1)[OF assms, of t] by (simp only: of_int_le_iff)
  then have "real_of_int t \<le> real_of_int ?q * real_of_int ps" by simp
  then show "real_of_int t / real_of_int ps \<le> real_of_int ?q"
    using ps by (simp add: pos_divide_le_eq)
qed

lemma get_multi_unfold:
  assumes "1 \<le> pg_page p" and "1 \<le> pg_page_size p"
  shows "get_multi model db p query srt =
     (case map_exn model (page_docs db p query srt) of
        Inl e \<Rightarrow> Inl e
      | Inr its \<Rightarrow>
          Inr \<lparr>items = its, total = int (length (matching db query srt)),
               page = pg_page p, page_size = pg_page_size p,
               total_pages =
                 (int (length (matching db query srt)) + pg_page_size p - 1) div pg_page_size p\<rparr>)"
proof -
  have s: "\<not> (pg_page p - 1) * pg_page_size p < 0"
    using assms by (simp add: mult_less_0_iff)
  have l: "apply_limit (pg_page_size p) xs = take (nat (pg_page_size p)) xs" for xs :: "doc list"
    using assms by (simp add: apply_limit_def)
  show ?thesis
    using assms s
    by (cases query; cases srt;
        simp add: get_multi_def find_cursor_def l page_docs_def matching_def Let_def
          count_documents_def length_sort_by split: sum.splits)
qed

text \<open>
  Claim C3. For every page from 1 on, every page size from 1 to 100, every filter, every
  order and every collection: when \<open>get_multi\<close> returns, its items are the models of the
  documents that are left after skipping exactly \<open>(page - 1) * page_size\<close> matching
  documents (at most \<open>page_size\<close> of them), \<open>total\<close> is the number of documents matching
  the filter, and \<open>total_pages\<close> is the ceiling of \<open>total / page_size\<close>; it raises only
  where the response model rejects a document of that page; and when the number skipped
  reaches or exceeds the number of matching documents it returns, with no items.
\<close>

theorem get_multi_pagination:
  assumes "1 \<le> pg_page p" and "1 \<le> pg_page_size p" and "pg_page_size p \<le> 100"
  shows "(case get_multi model db p query srt of
            Inr r \<Rightarrow>
              map_exn model (page_docs db p query srt) = Inr (items r) \<and>
              total r = int (length (matching db query srt)) \<and>
              total_pages r = \<lceil>real_of_int (total r) / real_of_int (pg_page_size p)\<rceil> \<and>
              page r = pg_page p \<and> page_size r = pg_page_size p
          | Inl e \<Rightarrow> \<exists>d \<in> set (page_docs db p query srt). model d = Inl e) \<and>
         (int (length (matching db query srt)) \<le> (pg_page p - 1) * pg_page_size p \<longrightarrow>
            (\<exists>r. get_multi model db p query srt = Inr r \<and> items r = []))"
proof -
  have ps: "0 < pg_page_size p" using assms by simp
  note u = get_multi_unfold[OF assms(1,2), of model db query srt]
  have a: "case get_multi model db p query srt of
            Inr r \<Rightarrow>
              map_exn model (page_docs db p query srt) = Inr (items r) \<and>
              total r = int (length (matching db query srt)) \<and>
              total_pages r = \<lceil>real_of_int (total r) / real_of_int (pg_page_size p)\<rceil> \<and>
              page r = pg_page p \<and> page_size r = pg_page_size p
          | Inl e \<Rightarrow> \<exists>d \<in> set (page_docs db p query srt). model d = Inl e"
  proof (cases "map_exn model (page_docs db p query srt)")
    case (Inl e)
    then show ?thesis using u map_exn_Inl[OF Inl] by simp
  next
    case (Inr its)
    have "\<lceil>real_of_int (int (length (matching db query srt))) / real_of_int (pg_page_size p)\<rceil>
            = (int (length (matching db query srt)) + pg_page_size p - 1) div pg_page_size p"
      by (rule ceil_div[OF ps])
    with Inr show ?thesis using u by simp
  qed
  have b: "\<exists>r. get_multi model db p query srt = Inr r \<and> items r = []"
    if "int (length (matching db query srt)) \<le> (pg_page p - 1) * pg_page_size p"
  proof -
    from that have "page_docs db p query srt = []"
      by (simp add: page_docs_def)
    then show ?thesis using u by simp
  qed
  from a b show ?thesis by blast
qed

theorem get_multi_pagination_witness:
  "1 \<le> pg_page \<lparr>pg_page = 2, pg_page_size = 1\<rparr> \<and>
   1 \<le> pg_page_size \<lparr>pg_page = 2, pg_page_size = 1\<rparr> \<and>
   pg_page_size \<lparr>pg_page = 2, pg_page_size = 1\<rparr> \<le> 100 \<and>
   get_multi (\<lambda>d. Inr d) ex_db2 \<lparr>pg_page = 2, pg_page_size = 1\<rparr> None None =
     Inr \<lparr>items = [ex_root_doc], total = 2, page = 2, page_size = 1, total_pages = 2\<rparr> \<and>
   (\<exists>r. get_multi (\<lambda>d. Inr d) ex_db2 \<lparr>pg_page = 3, pg_page_size = 1\<rparr> None None = Inr r \<and>
        items r = [])"
proof -
  have e: "get_multi (\<lambda>d. Inr d) ex_db2 \<lparr>pg_page = 2, pg_page_size = 1\<rparr> None None =
     Inr \<lparr>items = [ex_root_doc], total = 2, page = 2, page_size = 1, total_pages = 2\<rparr>"
    by code_simp
  have m: "int (length (matching ex_db2 None None)) = 2"
    by code_simp
  from get_multi_pagination[where p = "\<lparr>pg_page = 3, pg_page_size = 1\<rparr>"
      and model = "\<lambda>d. Inr d" and db = ex_db2 and query = None and srt = None]
  have "\<exists>r. get_multi (\<lambda>d. Inr d) ex_db2 \<lparr>pg_page = 3, pg_page_size = 1\<rparr> None None = Inr r \<and>
        items r = []"
    by (simp add: m)
  with e show ?thesis by simp
qed

section \<open>Listing users: own record or all\<close>

lemma lower_hex_digit:
  "c \<in> set ''0123456789abcdef'' \<Longrightarrow> lower_hex c = c \<and> hex_digit c"
  by (auto simp: lower_hex_def hex_digit_def)

lemma ObjectId_of_str_oid:
  assumes "wf_oid oid"
  shows "is_valid (str_oid oid)" and "ObjectId_of (str_oid oid) = Inr oid"
proof -
  obtain h where h: "oid = ObjectId h" by (cases oid)
  from assms h have len: "length h = 24"
    and all: "list_all (\<lambda>c. c \<in> set ''0123456789abcdef'') h"
    by (simp_all add: wf_oid_def)
  from all have "list_all hex_digit h" and "map lower_hex h = h"
    by (induction h) (simp_all add: lower_hex_digit)
  with len h show "is_valid (str_oid oid)" and "ObjectId_of (str_oid oid) = Inr oid"
    by (simp_all add: is_valid_def ObjectId_of_def)
qed

lemma matches_id: "matches [(''_id'', VOid oid)] d = (map_of d ''_id'' = Some (VOid oid))"
  by (auto simp: matches_def field_matches_def split: option.splits)

lemma find_one_id:
  assumes "distinct (map (\<lambda>d. map_of d ''_id'') db)" and "d \<in> set db"
    and "map_of d ''_id'' = Some (VOid oid)"
  shows "find_one db [(''_id'', VOid oid)] = Some d"
  using assms by (induction db) (force simp: find_one_def matches_id)+

lemma wf_collection_oid:
  "wf_collection db \<Longrightarrow> d \<in> set db \<Longrightarrow> map_of d ''_id'' = Some (VOid oid) \<Longrightarrow> wf_oid oid"
  by (auto simp: wf_collection_def list_all_iff split: option.splits val.splits)

lemma validated_user_clock:
  assumes "validated_user now0 d = Some cu"
  shows "\<exists>r. validated_user now d = Some r \<and> r\<lparr>created_at := created_at cu\<rparr> = cu
            \<and> (now = now0 \<longrightarrow> r = cu)"
  using assms
  by (auto simp: validated_user_def Option.bind_eq_Some_conv v_created_at_def
      split: option.splits val.splits)

lemma validated_user_id:
  "validated_user now d = Some cu \<Longrightarrow> map_of d ''id'' = Some (VStr (user_id cu))"
  by (auto simp: validated_user_def Option.bind_eq_Some_conv v_id_def
      split: option.splits val.splits)

lemma convert_to_response_Some:
  assumes "convert_to_response now0 (Some d) = Inr (Some cu)"
  shows "\<exists>oid. map_of d ''_id'' = Some (VOid oid) \<and> user_id cu = str_oid oid \<and>
           (\<exists>r. convert_to_response now (Some d) = Inr (Some r) \<and>
                 r\<lparr>created_at := created_at cu\<rparr> = cu \<and> (now = now0 \<longrightarrow> r = cu))"
proof -
  from assms obtain oid where oid: "map_of d ''_id'' = Some (VOid oid)" and ne: "d \<noteq> []"
    and v: "validated_user now0 (AList.update ''id'' (VStr (str_oid oid)) d) = Some cu"
    by (auto simp: convert_to_response_def if_doc_def UserResponse_of_def
        split: option.splits val.splits sum.splits if_splits)
  from validated_user_id[OF v] have "user_id cu = str_oid oid"
    by (simp add: update_conv')
  moreover from validated_user_clock[OF v, of now] obtain r where
    "validated_user now (AList.update ''id'' (VStr (str_oid oid)) d) = Some r"
    "r\<lparr>created_at := created_at cu\<rparr> = cu" "now = now0 \<longrightarrow> r = cu" by blast
  ultimately show ?thesis using oid ne
    by (auto simp: convert_to_response_def if_doc_def UserResponse_of_def)
qed

lemma get_user_own:
  assumes wf: "wf_collection db" and d: "d \<in> set db"
    and c: "convert_to_response now0 (Some d) = Inr (Some cu)"
  shows "\<exists>r. UserService_get_user now db (user_id cu) = Inr (Some r) \<and>
              r\<lparr>created_at := created_at cu\<rparr> = cu \<and> (now = now0 \<longrightarrow> r = cu)"
proof -
  from convert_to_response_Some[OF c, of now] obtain oid r where
    oid: "map_of d ''_id'' = Some (VOid oid)" and uid: "user_id cu = str_oid oid"
    and r: "convert_to_response now (Some d) = Inr (Some r)"
       "r\<lparr>created_at := created_at cu\<rparr> = cu" "now = now0 \<longrightarrow> r = cu"
    by blast
  have w: "wf_oid oid" by (rule wf_collection_oid[OF wf d oid])
  have f: "find_one db [(''_id'', VOid oid)] = Some d"
    using wf d oid by (intro find_one_id) (simp_all add: wf_collection_def)
  have "UserService_get_user now db (user_id cu) = convert_to_response now (Some d)"
    using ObjectId_of_str_oid[OF w] f by (simp add: UserService_get_user_def uid)
  with r show ?thesis by auto
qed

lemma get_user_stored:
  "UserService_get_user now db uid = convert_to_response now (stored_under db uid)"
  by (cases "is_valid uid")
     (simp_all add: stored_under_def UserService_get_user_def ObjectId_of_def
        convert_to_response_def if_doc_def)

lemma matches_Nil: "matches [] d"
  by (simp add: matches_def)

lemma get_users_all_unfold:
  assumes "1 \<le> lm"
  shows "get_users_all now db skip lm =
     (if skip < 0 then Inl (ValueError ''skip must be >= 0'')
      else
        (case map_exn (\<lambda>d. convert_to_response now (Some d))
                (take (nat lm) (drop (nat skip) db)) of
           Inl e \<Rightarrow> Inl e
         | Inr users \<Rightarrow>
             Inr \<lparr>items = users, total = int (length db), page = skip div lm + 1,
                  page_size = (if users \<noteq> [] then min lm (int (length users)) else 0),
                  total_pages = (int (length db) + lm - 1) div lm\<rparr>))"
  using assms
  by (simp add: get_users_all_def find_cursor_def apply_limit_def count_documents_def
      matches_Nil Let_def split: sum.splits)

lemma clamp_bounds: "1 \<le> max 1 (min 100 (l::int))" "max 1 (min 100 l) \<le> 100"
  "max 1 (min 100 (max 1 (min 100 l))) = max 1 (min 100 l)"
  by auto

text \<open>
  Claim C5, as amended. For a requester without the superuser flag the result of
  \<open>get_users\<close> does not depend on \<open>skip\<close> and \<open>limit\<close>, also out of range. It holds
  exactly one item when a document is stored under the requester's identifier: the
  response of that document. That item is the requester's own record: when the requester
  is the response of a document stored in a collection whose identifiers are unique, the
  item equals the requester (up to the creation time where the document stores none and
  the clock is read again). It holds no item, with \<open>total = 0\<close>, when no document is
  stored under the requester's identifier. For a superuser, and a \<open>skip\<close> that is not negative, the items
  are the responses of the documents of the whole collection after \<open>skip\<close> of them, at
  most the clamped \<open>limit\<close> of them, and \<open>total\<close> counts the whole collection; the call
  raises only where a document of that page does not validate.
\<close>

theorem get_users_permission_aware:
  "(\<not> is_superuser cu \<longrightarrow>
      get_users now db skip limit (Some cu) = get_users now db skip' limit' (Some cu)) \<and>
   (\<not> is_superuser cu \<and> wf_collection db \<and> d \<in> set db \<and>
    convert_to_response earlier (Some d) = Inr (Some cu) \<longrightarrow>
      (\<exists>r. get_users now db skip limit (Some cu) =
              Inr \<lparr>items = [Some r], total = 1, page = 1, page_size = 1, total_pages = 1\<rparr> \<and>
            r\<lparr>created_at := created_at cu\<rparr> = cu \<and> (now = earlier \<longrightarrow> r = cu))) \<and>
   (\<not> is_superuser cu \<and> stored_under db (user_id cu) = Some d' \<and>
    convert_to_response now (Some d') = Inr (Some r') \<longrightarrow>
      get_users now db skip limit (Some cu) =
        Inr \<lparr>items = [Some r'], total = 1, page = 1, page_size = 1, total_pages = 1\<rparr>) \<and>
   (\<not> is_superuser cu \<and> stored_under db (user_id cu) = None \<longrightarrow>
      get_users now db skip limit (Some cu) =
        Inr \<lparr>items = [], total = 0, page = 1, page_size = 1, total_pages = 1\<rparr>) \<and>
   (is_superuser cu \<and> 0 \<le> skip \<longrightarrow>
      (case get_users now db skip limit (Some cu) of
         Inr r \<Rightarrow>
           map_exn (\<lambda>d. convert_to_response now (Some d))
             (take (nat (max 1 (min 100 limit))) (drop (nat skip) db)) = Inr (items r) \<and>
           total r = int (length db)
       | Inl e \<Rightarrow>
           \<exists>d \<in> set (take (nat (max 1 (min 100 limit))) (drop (nat skip) db)).
             convert_to_response now (Some d) = Inl e))"
proof (intro conjI impI)
  assume "\<not> is_superuser cu"
  then show "get_users now db skip limit (Some cu) = get_users now db skip' limit' (Some cu)"
    by (simp add: get_users_def)
next
  assume a: "\<not> is_superuser cu \<and> wf_collection db \<and> d \<in> set db \<and>
    convert_to_response earlier (Some d) = Inr (Some cu)"
  then have ns: "\<not> is_superuser cu" and wf: "wf_collection db" and d: "d \<in> set db"
    and c: "convert_to_response earlier (Some d) = Inr (Some cu)" by simp_all
  from get_user_own[OF wf d c, of now] obtain r where
    r: "UserService_get_user now db (user_id cu) = Inr (Some r)"
       "r\<lparr>created_at := created_at cu\<rparr> = cu" "now = earlier \<longrightarrow> r = cu" by blast
  have "get_users now db skip limit (Some cu) =
          Inr \<lparr>items = [Some r], total = 1, page = 1, page_size = 1, total_pages = 1\<rparr>"
    using ns r(1) by (simp add: get_users_def get_users_self_def)
  with r(2,3) show "\<exists>r. get_users now db skip limit (Some cu) =
                   Inr \<lparr>items = [Some r], total = 1, page = 1, page_size = 1, total_pages = 1\<rparr> \<and>
                 r\<lparr>created_at := created_at cu\<rparr> = cu \<and> (now = earlier \<longrightarrow> r = cu)"
    by blast
next
  assume a: "\<not> is_superuser cu \<and> stored_under db (user_id cu) = Some d' \<and>
    convert_to_response now (Some d') = Inr (Some r')"
  then have "UserService_get_user now db (user_id cu) = Inr (Some r')"
    by (simp add: get_user_stored)
  with a show "get_users now db skip limit (Some cu) =
        Inr \<lparr>items = [Some r'], total = 1, page = 1, page_size = 1, total_pages = 1\<rparr>"
    by (simp add: get_users_def get_users_self_def)
next
  assume a: "\<not> is_superuser cu \<and> stored_under db (user_id cu) = None"
  then have "UserService_get_user now db (user_id cu) = Inr None"
    by (simp add: get_user_stored convert_to_response_def if_doc_def)
  with a show "get_users now db skip limit (Some cu) =
        Inr \<lparr>items = [], total = 0, page = 1, page_size = 1, total_pages = 1\<rparr>"
    by (simp add: get_users_def get_users_self_def)
next
  assume b: "is_superuser cu \<and> 0 \<le> skip"
  then have su: "is_superuser cu" and sk: "0 \<le> skip" by simp_all
  let ?lmt = "max 1 (min 100 limit)"
  let ?docs = "take (nat ?lmt) (drop (nat skip) db)"
  have g: "get_users now db skip limit (Some cu) = get_users_all now db skip ?lmt"
    using su by (simp add: get_users_def)
  note u = get_users_all_unfold[OF clamp_bounds(1), of now db skip limit]
  show "case get_users now db skip limit (Some cu) of
              Inr r \<Rightarrow>
                map_exn (\<lambda>d. convert_to_response now (Some d)) ?docs = Inr (items r) \<and>
                total r = int (length db)
            | Inl e \<Rightarrow> \<exists>d \<in> set ?docs. convert_to_response now (Some d) = Inl e"
  proof (cases "map_exn (\<lambda>d. convert_to_response now (Some d)) ?docs")
    case (Inl e)
    from map_exn_Inl[OF Inl] Inl show ?thesis using sk by (simp add: g u)
  next
    case (Inr users)
    then show ?thesis using sk by (simp add: g u)
  qed
qed

theorem get_users_permission_aware_witness:
  "\<not> is_superuser ex_alice_user \<and> wf_collection ex_db2 \<and> ex_alice_doc \<in> set ex_db2 \<and>
   convert_to_response 2000 (Some ex_alice_doc) = Inr (Some ex_alice_user) \<and>
   get_users 2000 ex_db2 5 7 (Some ex_alice_user) =
     Inr \<lparr>items = [Some ex_alice_user], total = 1, page = 1, page_size = 1, total_pages = 1\<rparr> \<and>
   stored_under ex_db1 (user_id ex_root_user) = None \<and>
   get_users 2000 ex_db1 5 7 (Some (ex_root_user\<lparr>is_superuser := False\<rparr>)) =
     Inr \<lparr>items = [], total = 0, page = 1, page_size = 1, total_pages = 1\<rparr> \<and>
   is_superuser ex_root_user \<and>
   get_users 2000 ex_db2 1 7 (Some ex_root_user) =
     Inr \<lparr>items = [Some ex_root_user], total = 2, page = 1, page_size = 1, total_pages = 1\<rparr>"
proof -
  have w: "wf_collection ex_db2" by code_simp
  have m: "ex_alice_doc \<in> set ex_db2" by (simp add: ex_db2_def)
  have c: "convert_to_response 2000 (Some ex_alice_doc) = Inr (Some ex_alice_user)"
    by code_simp
  have na: "\<not> is_superuser ex_alice_user" "is_superuser ex_root_user"
    by (simp_all add: ex_alice_user_def ex_root_user_def)
  have s: "stored_under ex_db1 (user_id ex_root_user) = None" by code_simp
  have g: "get_users 2000 ex_db2 1 7 (Some ex_root_user) =
     Inr \<lparr>items = [Some ex_root_user], total = 2, page = 1, page_size = 1, total_pages = 1\<rparr>"
    by code_simp
  from get_users_permission_aware[where cu = ex_alice_user and now = 2000 and earlier = 2000
      and db = ex_db2 and d = ex_alice_doc and skip = 5 and limit = 7] na w m c
  have a: "get_users 2000 ex_db2 5 7 (Some ex_alice_user) =
     Inr \<lparr>items = [Some ex_alice_user], total = 1, page = 1, page_size = 1, total_pages = 1\<rparr>"
    by auto
  from get_users_permission_aware[where cu = "ex_root_user\<lparr>is_superuser := False\<rparr>"
      and now = 2000 and db = ex_db1 and skip = 5 and limit = 7] s
  have e: "get_users 2000 ex_db1 5 7 (Some (ex_root_user\<lparr>is_superuser := False\<rparr>)) =
     Inr \<lparr>items = [], total = 0, page = 1, page_size = 1, total_pages = 1\<rparr>"
    by simp
  have f: "stored_under ex_db2 (user_id ex_alice_user) = Some ex_alice_doc" by code_simp
  from get_users_permission_aware[where cu = ex_alice_user and now = 2000 and db = ex_db2
      and d' = ex_alice_doc and r' = ex_alice_user and skip = 0 and limit = 100] na f c
  have "get_users 2000 ex_db2 0 100 (Some ex_alice_user) =
     Inr \<lparr>items = [Some ex_alice_user], total = 1, page = 1, page_size = 1, total_pages = 1\<rparr>"
    by simp
  with w m c na s g a e show ?thesis by simp
qed

text \<open>
  The claim C5 as it is stated fails for a requester whose record is not in the store:
  \<open>get_users\<close> then returns no item, by its test \<open>[user] if user else []\<close>.
\<close>

theorem get_users_absent_requester_counterexample:
  "\<not> is_superuser ex_alice_user \<and>
   get_users 2000 [] 5 7 (Some ex_alice_user) =
     Inr \<lparr>items = [], total = 0, page = 1, page_size = 1, total_pages = 1\<rparr>"
  by code_simp

text \<open>
  Claim C10, as amended. \<open>get_users\<close> depends on \<open>limit\<close> only through its clamped value
  \<open>max 1 (min 100 limit)\<close>, which lies between 1 and 100. For a requester without the
  superuser flag the metadata are \<open>page = 1\<close>, \<open>page_size = 1\<close>, \<open>total_pages = 1\<close>. For a
  superuser (or no requester) \<open>page_size\<close> is 0 when no item is returned and otherwise the
  minimum of the clamped limit and the number of items returned, which is the number of
  items returned; it is the minimum of the requested limit and the number of items
  whenever the requested limit is at least 1.
\<close>

theorem get_users_metadata:
  "(1 \<le> max 1 (min 100 limit) \<and> max 1 (min 100 limit) \<le> 100 \<and>
    get_users now db skip limit cuo = get_users now db skip (max 1 (min 100 limit)) cuo) \<and>
   (cuo = Some u \<and> \<not> is_superuser u \<and> get_users now db skip limit cuo = Inr r \<longrightarrow>
      page r = 1 \<and> page_size r = 1 \<and> total_pages r = 1) \<and>
   ((cuo = None \<or> (\<exists>u. cuo = Some u \<and> is_superuser u)) \<and>
    get_users now db skip limit cuo = Inr r \<longrightarrow>
      page_size r =
        (if items r = [] then 0 else min (max 1 (min 100 limit)) (int (length (items r)))) \<and>
      page_size r = int (length (items r)) \<and>
      int (length (items r)) \<le> max 1 (min 100 limit) \<and>
      (1 \<le> limit \<longrightarrow>
         page_size r = (if items r = [] then 0 else min limit (int (length (items r))))))"
proof (intro conjI impI)
  show "1 \<le> max 1 (min 100 limit)" "max 1 (min 100 limit) \<le> 100" by auto
  show "get_users now db skip limit cuo = get_users now db skip (max 1 (min 100 limit)) cuo"
    by (simp add: get_users_def clamp_bounds(3) Let_def)
next
  assume a: "cuo = Some u \<and> \<not> is_superuser u \<and> get_users now db skip limit cuo = Inr r"
  then have "get_users_self now db u = Inr r" by (auto simp: get_users_def Let_def)
  then have "page r = 1 \<and> page_size r = 1 \<and> total_pages r = 1"
    by (auto simp: get_users_self_def split: sum.splits option.splits)
  then show "page r = 1" "page_size r = 1" "total_pages r = 1" by simp_all
next
  assume a: "(cuo = None \<or> (\<exists>u. cuo = Some u \<and> is_superuser u)) \<and>
    get_users now db skip limit cuo = Inr r"
  let ?lmt = "max 1 (min 100 limit)"
  from a have g: "get_users_all now db skip ?lmt = Inr r"
    by (auto simp: get_users_def Let_def)
  note u = get_users_all_unfold[OF clamp_bounds(1), of now db skip limit]
  from g obtain users where m: "map_exn (\<lambda>d. convert_to_response now (Some d))
        (take (nat ?lmt) (drop (nat skip) db)) = Inr users"
    and r: "r = \<lparr>items = users, total = int (length db), page = skip div ?lmt + 1,
                  page_size = (if users \<noteq> [] then min ?lmt (int (length users)) else 0),
                  total_pages = (int (length db) + ?lmt - 1) div ?lmt\<rparr>"
    unfolding u by (auto split: if_splits sum.splits)
  from map_exn_Inr_length[OF m] have "length users \<le> nat ?lmt"
    by simp
  then have "int (length users) \<le> int (nat ?lmt)"
    by (simp only: of_nat_le_iff)
  then have len: "int (length users) \<le> ?lmt"
    using clamp_bounds(1)[of limit] by (simp split: if_splits)
  have ms: "min ?lmt (int (length users)) = int (length users)"
    using len by (rule min_absorb2)
  show "page_size r = (if items r = [] then 0 else min ?lmt (int (length (items r))))"
    by (simp add: r)
  show "page_size r = int (length (items r))"
    by (cases "users = []") (simp_all add: r ms)
  show "int (length (items r)) \<le> ?lmt" using len by (simp add: r)
  show "page_size r = (if items r = [] then 0 else min limit (int (length (items r))))"
    if "1 \<le> limit"
  proof -
    from len that have "int (length users) \<le> limit" by linarith
    then have "min limit (int (length users)) = int (length users)"
      by (rule min_absorb2)
    then show ?thesis by (simp add: r ms)
  qed
qed

theorem get_users_metadata_witness:
  "get_users 2000 ex_db2 0 500 (Some ex_root_user) =
     Inr \<lparr>items = [Some ex_alice_user, Some ex_root_user], total = 2, page = 1,
          page_size = 2, total_pages = 1\<rparr> \<and>
   get_users 2000 ex_db2 0 500 (Some ex_root_user) =
     get_users 2000 ex_db2 0 (max 1 (min 100 500)) (Some ex_root_user) \<and>
   get_users 2000 ex_db2 3 9 (Some ex_alice_user) =
     Inr \<lparr>items = [Some ex_alice_user], total = 1, page = 1, page_size = 1, total_pages = 1\<rparr>"
proof -
  have g: "get_users 2000 ex_db2 0 500 (Some ex_root_user) =
     Inr \<lparr>items = [Some ex_alice_user, Some ex_root_user], total = 2, page = 1,
          page_size = 2, total_pages = 1\<rparr>"
    by code_simp
  have a: "get_users 2000 ex_db2 3 9 (Some ex_alice_user) =
     Inr \<lparr>items = [Some ex_alice_user], total = 1, page = 1, page_size = 1, total_pages = 1\<rparr>"
    by code_simp
  from get_users_metadata[where limit = 500 and now = 2000 and db = ex_db2 and skip = 0
      and cuo = "Some ex_root_user"]
  have "get_users 2000 ex_db2 0 500 (Some ex_root_user) =
     get_users 2000 ex_db2 0 (max 1 (min 100 500)) (Some ex_root_user)"
    by blast
  with g a show ?thesis by simp
qed

text \<open>
  The claim C10 as it is stated fails for a requested limit below 1: with \<open>limit = 0\<close> a
  superuser gets one item and \<open>page_size = 1\<close>, which is not the minimum of the requested
  limit 0 and the number of items.
\<close>

theorem get_users_page_size_counterexample:
  "get_users 2000 ex_db2 0 0 (Some ex_root_user) =
     Inr \<lparr>items = [Some ex_alice_user], total = 2, page = 1, page_size = 1, total_pages = 2\<rparr> \<and>
   is_superuser ex_root_user \<and>
   (1::int) \<noteq> min 0 (int (length [Some ex_alice_user]))"
  by code_simp

section \<open>Tokens\<close>

lemma decode_minted:
  "decode_token key t (create_access_token key now dat ttl) =
     (if t div 1000000 \<le> expire_at now ttl div 1000000
      then Inr (Some (AList.update ''exp'' (JInt (expire_at now ttl div 1000000)) dat))
      else Inr None)"
  by (simp add: decode_token_def create_access_token_def jwt_encode_def jwt_decode_def
      update_conv' Let_def)

lemma second_mono:
  fixes t e :: int
  shows "t < e \<Longrightarrow> t div 1000000 \<le> e div 1000000"
    and "e + 1000000 \<le> t \<Longrightarrow> \<not> t div 1000000 \<le> e div 1000000"
proof -
  show "t < e \<Longrightarrow> t div 1000000 \<le> e div 1000000"
    by (rule zdiv_mono1) simp_all
  assume "e + 1000000 \<le> t"
  then have "(e + 1000000) div 1000000 \<le> t div 1000000"
    by (rule zdiv_mono1) simp
  then show "\<not> t div 1000000 \<le> e div 1000000" by simp
qed

text \<open>
  Claim C7, as amended. The expiry of a minted token is \<open>now + ttl\<close> for a duration
  \<open>ttl\<close> other than zero, and \<open>now\<close> plus 15 minutes for no duration or a zero one.
  Decoding a token minted for a subject, with the same secret, yields that subject at
  every instant whose second is not after the second of the expiry, hence at every instant
  before the expiry and at the expiry instant itself; it yields invalid at every instant of
  a later second, hence from one second after the expiry on.
\<close>

theorem token_subject_and_expiry:
  "(expires_delta = Some d \<and> d \<noteq> 0 \<longrightarrow> expire_at now expires_delta = now + d) \<and>
   (expires_delta = None \<or> expires_delta = Some 0 \<longrightarrow>
      expire_at now expires_delta = now + 15 * 60 * 1000000) \<and>
   (t div 1000000 \<le> expire_at now expires_delta div 1000000 \<longrightarrow>
      (\<exists>payload.
         decode_token key t
           (create_access_token key now [(''sub'', JStr subject)] expires_delta) =
           Inr (Some payload) \<and>
         map_of payload ''sub'' = Some (JStr subject))) \<and>
   (expire_at now expires_delta div 1000000 < t div 1000000 \<longrightarrow>
      decode_token key t
        (create_access_token key now [(''sub'', JStr subject)] expires_delta) = Inr None) \<and>
   (t < expire_at now expires_delta \<longrightarrow>
      t div 1000000 \<le> expire_at now expires_delta div 1000000) \<and>
   (expire_at now expires_delta + 1000000 \<le> t \<longrightarrow>
      expire_at now expires_delta div 1000000 < t div 1000000)"
proof (intro conjI impI)
  show "expire_at now expires_delta = now + d" if "expires_delta = Some d \<and> d \<noteq> 0"
    using that by (simp add: expire_at_def)
  show "expire_at now expires_delta = now + 15 * 60 * 1000000"
    if "expires_delta = None \<or> expires_delta = Some 0"
    using that by (auto simp: expire_at_def)
  show "\<exists>payload.
         decode_token key t
           (create_access_token key now [(''sub'', JStr subject)] expires_delta) =
           Inr (Some payload) \<and>
         map_of payload ''sub'' = Some (JStr subject)"
    if "t div 1000000 \<le> expire_at now expires_delta div 1000000"
    using that by (simp add: decode_minted)
  show "decode_token key t
        (create_access_token key now [(''sub'', JStr subject)] expires_delta) = Inr None"
    if "expire_at now expires_delta div 1000000 < t div 1000000"
    using that by (simp add: decode_minted)
  show "t div 1000000 \<le> expire_at now expires_delta div 1000000"
    if "t < expire_at now expires_delta"
    using that by (rule second_mono(1))
  show "expire_at now expires_delta div 1000000 < t div 1000000"
    if "expire_at now expires_delta + 1000000 \<le> t"
    using second_mono(2)[OF that] by simp
qed

theorem token_subject_and_expiry_witness:
  "decode_token ''secret'' 59999999
     (create_access_token ''secret'' 0 [(''sub'', JStr ''alice'')] (Some 60000000)) =
     Inr (Some [(''sub'', JStr ''alice''), (''exp'', JInt 60)]) \<and>
   decode_token ''secret'' 61000000
     (create_access_token ''secret'' 0 [(''sub'', JStr ''alice'')] (Some 60000000)) = Inr None \<and>
   expire_at 0 (Some 60000000) = 60000000 \<and> expire_at 0 None = 900000000"
proof -
  have e: "expire_at 0 (Some 60000000) = 60000000" "expire_at 0 None = 900000000"
    by (simp_all add: expire_at_def)
  have d: "decode_token ''secret'' 59999999
     (create_access_token ''secret'' 0 [(''sub'', JStr ''alice'')] (Some 60000000)) =
     Inr (Some [(''sub'', JStr ''alice''), (''exp'', JInt 60)])"
    by code_simp
  from token_subject_and_expiry[where expires_delta = "Some 60000000" and d = 60000000
      and now = 0 and t = 61000000 and key = "''secret''" and subject = "''alice''"]
  have "decode_token ''secret'' 61000000
     (create_access_token ''secret'' 0 [(''sub'', JStr ''alice'')] (Some 60000000)) = Inr None"
    by (simp add: e)
  with e d show ?thesis by simp
qed

text \<open>
  The claim C7 as it is stated fails twice: a token minted with the duration zero is
  still accepted after its minting instant (it lives 15 minutes), and a token minted for
  one minute is still accepted at its expiry instant.
\<close>

theorem token_expiry_counterexample:
  "decode_token ''secret'' 1
     (create_access_token ''secret'' 0 [(''sub'', JStr ''alice'')] (Some 0)) =
     Inr (Some [(''sub'', JStr ''alice''), (''exp'', JInt 900)]) \<and>
   (0::int) + 0 \<le> 1 \<and>
   decode_token ''secret'' 60000000
     (create_access_token ''secret'' 0 [(''sub'', JStr ''alice'')] (Some 60000000)) =
     Inr (Some [(''sub'', JStr ''alice''), (''exp'', JInt 60)]) \<and>
   (0::int) + 60000000 \<le> 60000000"
  by code_simp

section \<open>Where the code departs from the specification\<close>

text \<open>
  Claim C1 (registering a user name twice gives success, then a conflict). The handler
  calls the instance method \<open>create_user\<close> on the class, so every registration raises
  \<open>TypeError\<close> and is answered with 500: the first is no success, the second no conflict,
  and nothing is stored. The method itself, on an instance, stores the first user, and for
  a second request with the same user name and another address it returns \<open>None\<close> and
  leaves the collection as it was: no branch raises the conflict.
\<close>

theorem register_duplicate_username:
  "register db user_in =
     (Inl (TypeError ''create_user() missing 1 required positional argument: user_in''), db) \<and>
   http_status (TypeError ''create_user() missing 1 required positional argument: user_in'')
     = 500 \<and>
   create_user ex_hash 7 1000 ex_oid1 [] ex_alice = (Inr (Some ex_alice_user), ex_db1) \<and>
   username ex_alice_again = username ex_alice \<and>
   create_user ex_hash 8 2000 ex_oid2 ex_db1 ex_alice_again = (Inr None, ex_db1)"
proof -
  have "create_user ex_hash 7 1000 ex_oid1 [] ex_alice = (Inr (Some ex_alice_user), ex_db1) \<and>
   username ex_alice_again = username ex_alice \<and>
   create_user ex_hash 8 2000 ex_oid2 ex_db1 ex_alice_again = (Inr None, ex_db1)"
    by code_simp
  then show ?thesis by (simp add: register_def http_status_def)
qed

text \<open>
  Claim C2 (\<open>GET /users/me\<close> returns the requester's record). For the registered, active
  user alice, with the unexpired token the login flow mints for her, the dependency
  \<open>get_current_user\<close> calls the instance method \<open>get_by_username\<close> on the class and
  raises \<open>TypeError\<close>: the answer is 500. The handler \<open>read_user_me\<close> would not be the one
  to run either: the route \<open>/{user_id}\<close> is declared before \<open>/me\<close>, so the router hands
  \<open>GET /me\<close> to \<open>read_user_by_id\<close> with the identifier \<open>me\<close>, which answers 404 for
  every requester.
\<close>

theorem users_me_shadowed:
  "create_access_token_for_user ''secret'' 1000 ex_alice_user = ex_token ''alice'' \<and>
   users_GET ''secret'' 2000 ex_db1 ''/me'' (Some (ex_token ''alice'')) 0 10 =
     Inl (TypeError ''get_by_username() missing 1 required positional argument: self'') \<and>
   http_status (TypeError ''get_by_username() missing 1 required positional argument: self'')
     = 500 \<and>
   route_request users_router ''GET'' ''/me'' = Full Ep_read_user_by_id [(''user_id'', ''me'')] \<and>
   read_user_by_id ''me'' current_user = Inl (HTTPException 404 ''User not found'' [])"
proof -
  have "create_access_token_for_user ''secret'' 1000 ex_alice_user = ex_token ''alice'' \<and>
   users_GET ''secret'' 2000 ex_db1 ''/me'' (Some (ex_token ''alice'')) 0 10 =
     Inl (TypeError ''get_by_username() missing 1 required positional argument: self'') \<and>
   route_request users_router ''GET'' ''/me'' = Full Ep_read_user_by_id [(''user_id'', ''me'')]"
    by code_simp
  then show ?thesis by (simp add: http_status_def read_user_by_id_def is_valid_def)
qed

text \<open>
  Claim C4 (an unknown user name and a wrong password give the same unauthorized
  signal). \<open>authenticate_user\<close> reads the name \<open>UserRepository\<close>, which its module never
  imports: for every collection, user name and password it raises \<open>NameError\<close>, and the
  login route answers 500. The two cases are answered alike, but with a server error, not
  with the unauthorized signal. \<open>UserRepository.authenticate\<close> raises for every input as
  well.
\<close>

theorem authenticate_raises_for_every_input:
  "authenticate_user db uname pw = Inl (NameError ''UserRepository'') \<and>
   login_access_token SECRET_KEY now db uname pw = Inl (NameError ''UserRepository'') \<and>
   http_status (NameError ''UserRepository'') = 500 \<and>
   UserRepository_authenticate db uname pw =
     Inl (TypeError ''object AsyncIOMotorDatabase can not be used in await expression'')"
  by (simp add: authenticate_user_def login_access_token_def name_UserRepository_def
      http_status_def UserRepository_authenticate_def get_collection_def)

text \<open>
  Claim C8 (\<open>get\<close> returns absent for a malformed or unknown identifier). The generic
  helper's \<open>get\<close> and the service's \<open>get_user\<close> test the identifier first and return
  \<open>None\<close> for a malformed one. \<open>UserRepository.get\<close> raises \<open>TypeError\<close> for every
  identifier, malformed, unknown or stored, at the \<open>await\<close> of its first line.
\<close>

theorem repository_get_raises:
  "UserRepository_get db uid =
     Inl (TypeError ''object AsyncIOMotorDatabase can not be used in await expression'') \<and>
   \<not> is_valid ''me'' \<and>
   CRUD_get model db ''me'' = Inr None \<and>
   UserService_get_user now db ''me'' = Inr None \<and>
   is_valid ''0000000000000000000000a1'' \<and>
   CRUD_get model [] ''0000000000000000000000a1'' = Inr None"
  by (simp add: UserRepository_get_def get_collection_def CRUD_get_def
      UserService_get_user_def ObjectId_of_def is_valid_def hex_digit_def find_one_def
      model_if_def if_doc_def)

text \<open>
  Claim C9 (an empty partial is a no-op that returns the record; only non-null fields
  overwrite). \<open>UserRepository.update\<close> raises \<open>TypeError\<close> at the \<open>await\<close> of its first
  line for every input: it writes nothing, and it never returns the record. The generic
  helper's \<open>update\<close> does what the claim says: with every field absent or \<open>null\<close> it
  leaves the collection as it was and returns the record, and a partial with one value
  overwrites that field only.
\<close>

theorem repository_update_raises:
  "UserRepository_update db uid upd =
     (Inl (TypeError ''object AsyncIOMotorDatabase can not be used in await expression''), db) \<and>
   CRUD_update (\<lambda>d. Inr d) ex_db1 ''0000000000000000000000a1''
     (dict_all (ex_unset\<lparr>upd_full_name := Null\<rparr>)) True = (Inr (Some ex_alice_doc), ex_db1) \<and>
   CRUD_update (\<lambda>d. Inr d) ex_db1 ''0000000000000000000000a1''
     (dict_all (ex_unset\<lparr>upd_full_name := Value ''Al''\<rparr>)) True =
     (Inr (Some (AList.update ''full_name'' (VStr ''Al'') ex_alice_doc)),
      [AList.update ''full_name'' (VStr ''Al'') ex_alice_doc])"
proof -
  have "CRUD_update (\<lambda>d. Inr d) ex_db1 ''0000000000000000000000a1''
     (dict_all (ex_unset\<lparr>upd_full_name := Null\<rparr>)) True = (Inr (Some ex_alice_doc), ex_db1) \<and>
   CRUD_update (\<lambda>d. Inr d) ex_db1 ''0000000000000000000000a1''
     (dict_all (ex_unset\<lparr>upd_full_name := Value ''Al''\<rparr>)) True =
     (Inr (Some (AList.update ''full_name'' (VStr ''Al'') ex_alice_doc)),
      [AList.update ''full_name'' (VStr ''Al'') ex_alice_doc])"
    by code_simp
  then show ?thesis by (simp add: UserRepository_update_def get_collection_def)
qed

text \<open>
  Claim C6 (no write operation stores a plaintext password). \<open>create_user\<close> stores the
  hash of the password it is given and no \<open>password\<close> field. But \<open>UserService\<close>
  inherits the generic \<open>update\<close>, which stores the fields of the partial as they are: an
  update that carries a password writes it in plaintext under \<open>password\<close> and leaves
  \<open>hashed_password\<close> as it was (the write is done before the response model rejects the
  document). \<open>UserRepository.update\<close>, which would hash the password, raises on its
  first line and writes nothing.
\<close>

theorem inherited_update_stores_plaintext:
  "create_user ex_hash 7 1000 ex_oid1 [] ex_alice = (Inr (Some ex_alice_user), ex_db1) \<and>
   map_of ex_alice_doc ''hashed_password'' = Some (VStr (ex_hash 7 (password ex_alice))) \<and>
   map_of ex_alice_doc ''password'' = None \<and>
   UserService_update 3000 ex_db1 ''0000000000000000000000a1''
     (ex_unset\<lparr>upd_password := Value ''plaintext1''\<rparr>) =
     (Inl (ValidationError [''id'']),
      [ex_alice_doc @ [(''password'', VStr ''plaintext1'')]]) \<and>
   UserRepository_update db uid upd =
     (Inl (TypeError ''object AsyncIOMotorDatabase can not be used in await expression''), db)"
proof -
  have "create_user ex_hash 7 1000 ex_oid1 [] ex_alice = (Inr (Some ex_alice_user), ex_db1) \<and>
   map_of ex_alice_doc ''hashed_password'' = Some (VStr (ex_hash 7 (password ex_alice))) \<and>
   map_of ex_alice_doc ''password'' = None \<and>
   UserService_update 3000 ex_db1 ''0000000000000000000000a1''
     (ex_unset\<lparr>upd_password := Value ''plaintext1''\<rparr>) =
     (Inl (ValidationError [''id'']),
      [ex_alice_doc @ [(''password'', VStr ''plaintext1'')]])"
    by code_simp
  then show ?thesis by (simp add: UserRepository_update_def get_collection_def)
qed

end
